theory Spec2Isabelle
  imports Main "HOL-Library.AList"
begin

section \<open>Values, errors and remote entities\<close>

text \<open>
  The script \<^verbatim>\<open>get-repos.py\<close> lists the public repositories of GitHub page by page,
  projects each repository onto the attribute names in \<^verbatim>\<open>PROPERTIES\<close>, appends the
  projection to a CSV file and derives the next \<^verbatim>\<open>since\<close> cursor from the largest
  \<^verbatim>\<open>id\<close> in that file.

  Attribute values are Python objects. The model keeps the kinds the script can tell
  apart: \<^verbatim>\<open>None\<close>, booleans, integers, strings, lists, and any other object (a user, a
  timestamp), the last one given by the text \<^verbatim>\<open>str()\<close> prints for it.
\<close>

datatype py_value =
    PyNone
  | PyBool bool
  | PyInt int
  | PyStr string
  | PyList "py_value list"
  | PyObject string

text \<open>
  The \<^verbatim>\<open>data\<close> of a \<^verbatim>\<open>GithubException\<close>: the API client stores the decoded JSON body
  of the error response, a dict. \<open>DataObject attrs items\<close> is any other object: \<open>attrs\<close> are
  the names of its attributes, and \<open>items\<close> is what its \<^verbatim>\<open>get\<close> method, if it has one,
  answers.
\<close>

datatype py_data =
    DataDict "(string \<times> string) list"
  | DataObject "string list" "(string \<times> string) list"

text \<open>
  The exceptions that cross a function boundary of the script.
  \<open>GithubException None\<close> is an exception object without a \<^verbatim>\<open>data\<close> attribute.
  \<^verbatim>\<open>RateLimitExceededException\<close> is a subclass of \<^verbatim>\<open>GithubException\<close> in the client library;
  every handler of the script tests for it first, so the model keeps the two apart.
\<close>

datatype error =
    RateLimitExceededException
  | GithubException "py_data option"
  | AttributeError
  | ValueError
  | TypeError
  | EmptyDataError
  | OtherError string

text \<open>
  Reading an attribute of a repository object finds no such attribute, finds a value, or
  raises (the client completes a repository lazily with a further request, which can fail).
\<close>

datatype attr = Absent | Value py_value | Raises error

type_synonym repository = "string \<Rightarrow> attr"

text \<open>
  A \<^verbatim>\<open>PaginatedList\<close> is consumed by iteration: each step yields a repository or raises
  while the next page is requested.
\<close>

datatype fetch = Entity repository | FetchRaises error

datatype since = NotSet | Since int

definition getattr :: "repository \<Rightarrow> string \<Rightarrow> error + py_value" where
  "getattr repo prop =
     (case repo prop of
        Absent \<Rightarrow> Inl AttributeError
      | Value v \<Rightarrow> Inr v
      | Raises e \<Rightarrow> Inl e)"

text \<open>\<^verbatim>\<open>hasattr\<close> answers False on \<^verbatim>\<open>AttributeError\<close> only; any other exception leaves it.\<close>

definition hasattr :: "repository \<Rightarrow> string \<Rightarrow> error + bool" where
  "hasattr repo prop =
     (case getattr repo prop of
        Inl AttributeError \<Rightarrow> Inr False
      | Inl e \<Rightarrow> Inl e
      | Inr v \<Rightarrow> Inr True)"

subsection \<open>The built-in \<^verbatim>\<open>int\<close>\<close>

text \<open>
  \<^verbatim>\<open>int(x)\<close> on a string: surrounding whitespace is dropped, one sign is allowed, and the
  digits may be grouped by single underscores. The model covers ASCII text.
  \<open>None\<close> stands for the exception \<^verbatim>\<open>int\<close> raises.
\<close>

definition is_space :: "char \<Rightarrow> bool" where
  "is_space c = (c \<in> set [CHR '' '', CHR 0x09, CHR 0x0A, CHR 0x0B, CHR 0x0C, CHR 0x0D])"

definition digit_val :: "char \<Rightarrow> nat option" where
  "digit_val c =
     (let k = (of_char c :: nat) in if 48 \<le> k \<and> k \<le> 57 then Some (k - 48) else None)"

fun digits_val :: "nat \<Rightarrow> string \<Rightarrow> nat option" where
  "digits_val acc [] = Some acc"
| "digits_val acc [c] =
     (case digit_val c of None \<Rightarrow> None | Some v \<Rightarrow> Some (10 * acc + v))"
| "digits_val acc (c # d # ds) =
     (if c = CHR ''_'' then
        (case digit_val d of None \<Rightarrow> None | Some v \<Rightarrow> digits_val (10 * acc + v) ds)
      else
        (case digit_val c of None \<Rightarrow> None | Some v \<Rightarrow> digits_val (10 * acc + v) (d # ds)))"

definition unsigned_val :: "string \<Rightarrow> nat option" where
  "unsigned_val s =
     (case s of
        [] \<Rightarrow> None
      | c # cs \<Rightarrow> (case digit_val c of None \<Rightarrow> None | Some v \<Rightarrow> digits_val v cs))"

definition strip :: "string \<Rightarrow> string" where
  "strip s = rev (dropWhile is_space (rev (dropWhile is_space s)))"

definition int_of_str :: "string \<Rightarrow> int option" where
  "int_of_str s =
     (case strip s of
        [] \<Rightarrow> None
      | c # cs \<Rightarrow>
          if c = CHR ''-'' then map_option (\<lambda>n. - int n) (unsigned_val cs)
          else if c = CHR ''+'' then map_option int (unsigned_val cs)
          else map_option int (unsigned_val (c # cs)))"

fun py_int :: "py_value \<Rightarrow> int option" where
  "py_int PyNone = None"
| "py_int (PyBool b) = Some (if b then 1 else 0)"
| "py_int (PyInt n) = Some n"
| "py_int (PyStr s) = int_of_str s"
| "py_int (PyList xs) = None"
| "py_int (PyObject r) = None"

fun py_truthy :: "py_value \<Rightarrow> bool" where
  "py_truthy PyNone = False"
| "py_truthy (PyBool b) = b"
| "py_truthy (PyInt n) = (n \<noteq> 0)"
| "py_truthy (PyStr s) = (s \<noteq> [])"
| "py_truthy (PyList xs) = (xs \<noteq> [])"
| "py_truthy (PyObject r) = True"

section \<open>The durable store\<close>

definition PROPERTIES :: "string list" where
  "PROPERTIES = [
    ''allow_auto_merge'', ''allow_forking'', ''allow_merge_commit'',
    ''allow_rebase_merge'', ''allow_squash_merge'', ''allow_update_branch'', ''archived'',
    ''archive_url'', ''blobs_url'', ''branches_url'', ''clone_url'',
    ''collaborators_url'', ''comments_url'', ''commits_url'', ''compare_url'',
    ''contents_url'', ''contributors_url'', ''created_at'', ''default_branch'',
    ''delete_branch_on_merge'', ''deployments_url'', ''description'', ''downloads_url'',
    ''events_url'', ''fork'', ''forks'', ''forks_count'', ''forks_url'', ''full_name'',
    ''git_commits_url'', ''git_refs_url'', ''git_tags_url'', ''git_url'',
    ''has_downloads'', ''has_issues'', ''has_pages'', ''has_projects'', ''has_wiki'',
    ''homepage'', ''hooks_url'', ''html_url'', ''id'', ''issue_comment_url'',
    ''issue_events_url'', ''issues_url'', ''keys_url'', ''labels_url'', ''language'',
    ''languages_url'', ''master_branch'', ''merges_url'', ''milestones_url'',
    ''mirror_url'', ''name'', ''network_count'', ''notifications_url'', ''open_issues'',
    ''open_issues_count'', ''organization'', ''owner'', ''parent'', ''permissions'',
    ''private'', ''pulls_url'', ''pushed_at'', ''releases_url'', ''size'', ''source'',
    ''ssh_url'', ''stargazers_count'', ''stargazers_url'', ''statuses_url'',
    ''subscribers_url'', ''subscribers_count'', ''subscription_url'', ''svn_url'',
    ''tags_url'', ''teams_url'', ''topics'', ''trees_url'', ''updated_at'', ''url'',
    ''visibility'', ''watchers'', ''watchers_count'']"

text \<open>
  The CSV file, line by line. \<open>Row d\<close> is the line \<^verbatim>\<open>to_csv\<close> writes for the one-row frame
  \<^verbatim>\<open>DataFrame(data=[d], columns=PROPERTIES)\<close>: the cells of \<open>d\<close> in column order, a
  missing key as an empty cell. \<open>Header\<close> is the line of column names.
\<close>

datatype csv_line = Header | Row "(string \<times> py_value) list"

text \<open>
  What the script changes: the file it appends to, the error log of the \<^verbatim>\<open>logging\<close>
  module (an entry holds the repository name and the message that the logged line is
  formatted from), the durations handed to \<^verbatim>\<open>time.sleep\<close>, and the number of
  invocations of \<^verbatim>\<open>get_repos_with_backoff\<close> so far (its recursion depth).
\<close>

record state =
  csv :: "csv_line list"
  errors_log :: "(py_value \<times> string option) list"
  slept :: "int list"
  calls :: nat

text \<open>
  \<^verbatim>\<open>df.to_csv(f, header=f.tell() == 0, index=False)\<close> on a file opened for appending:
  the position is the size of the file, so the header goes out with the row when and
  only when the file holds nothing yet.
\<close>

definition to_csv :: "csv_line list \<Rightarrow> (string \<times> py_value) list \<Rightarrow> csv_line list" where
  "to_csv f repo_dict = (if f = [] then [Header, Row repo_dict] else f @ [Row repo_dict])"

subsection \<open>Reading the identifier column\<close>

text \<open>
  \<^verbatim>\<open>pd.read_csv(file, usecols=["id"], dtype={"id": pd.Int64Dtype()})\<close> gives the
  \<^verbatim>\<open>id\<close> column as nullable 64-bit integers; \<open>None\<close> is a missing value. An empty
  cell (a missing key, or \<^verbatim>\<open>None\<close>) is missing, and the cell written for an integer of
  the 64-bit range reads back as that integer. What the reader makes of any other cell
  (text, a boolean, an integer out of range) is the business of the numeric conversion
  inside the library; it is the parameter \<open>to_numeric\<close>, which answers for the value the
  cell was written from. A file of zero bytes has no columns to parse, and a file whose
  first line is not the header has no column named \<^verbatim>\<open>id\<close>. A header line further down
  is a row whose \<^verbatim>\<open>id\<close> cell holds the text \<^verbatim>\<open>id\<close>.
\<close>

definition in_int64 :: "int \<Rightarrow> bool" where
  "in_int64 n = (- (2 ^ 63) \<le> n \<and> n < 2 ^ 63)"

fun int64_cell :: "(py_value \<Rightarrow> error + int option) \<Rightarrow> py_value option \<Rightarrow> error + int option" where
  "int64_cell to_numeric None = Inr None"
| "int64_cell to_numeric (Some PyNone) = Inr None"
| "int64_cell to_numeric (Some (PyInt n)) =
     (if in_int64 n then Inr (Some n) else to_numeric (PyInt n))"
| "int64_cell to_numeric (Some v) = to_numeric v"

fun read_ids :: "(py_value \<Rightarrow> error + int option) \<Rightarrow> csv_line list \<Rightarrow> error + int option list" where
  "read_ids to_numeric [] = Inr []"
| "read_ids to_numeric (l # rest) =
     (case int64_cell to_numeric (case l of Header \<Rightarrow> Some (PyStr ''id'') | Row d \<Rightarrow> map_of d ''id'') of
        Inl e \<Rightarrow> Inl e
      | Inr v \<Rightarrow>
          (case read_ids to_numeric rest of Inl e \<Rightarrow> Inl e | Inr vs \<Rightarrow> Inr (v # vs)))"

definition read_csv :: "(py_value \<Rightarrow> error + int option) \<Rightarrow> csv_line list \<Rightarrow> error + int option list" where
  "read_csv to_numeric f =
     (case f of
        [] \<Rightarrow> Inl EmptyDataError
      | Header # rows \<Rightarrow> read_ids to_numeric rows
      | Row d # rows \<Rightarrow> Inl ValueError)"

section \<open>The functions of the script\<close>

subsection \<open>\<^verbatim>\<open>get_max_id\<close>\<close>

text \<open>
  A scalar of the numeric libraries: the missing value \<^verbatim>\<open>pd.NA\<close>, the float
  \<^verbatim>\<open>nan\<close>, or a number.
\<close>

datatype scalar = NA | NaN | Num int

text \<open>
  \<^verbatim>\<open>df.id.max()\<close> skips missing values; of a nullable integer column without values it
  is \<^verbatim>\<open>pd.NA\<close>.
\<close>

definition series_max :: "int option list \<Rightarrow> scalar" where
  "series_max col =
     (case map the (filter (\<lambda>v. v \<noteq> None) col) of
        [] \<Rightarrow> NA
      | x # xs \<Rightarrow> Num (fold max xs x))"

text \<open>\<^verbatim>\<open>np.isnan\<close> of \<^verbatim>\<open>pd.NA\<close> is \<^verbatim>\<open>pd.NA\<close> again; \<open>None\<close> is that answer.\<close>

fun np_isnan :: "scalar \<Rightarrow> bool option" where
  "np_isnan NA = None"
| "np_isnan NaN = Some True"
| "np_isnan (Num n) = Some False"

text \<open>
  \<^verbatim>\<open>if np.isnan(max_index)\<close> asks for the truth value of the answer, and \<^verbatim>\<open>pd.NA\<close> has
  none: \<^verbatim>\<open>TypeError\<close>. The handler of the function catches \<^verbatim>\<open>ValueError\<close> only, and
  re-raises what it caught, so every exception of the body leaves the function.
\<close>

definition get_max_id :: "int option list \<Rightarrow> error + since" where
  "get_max_id df =
     (let max_index = series_max df in
      case np_isnan max_index of
        None \<Rightarrow> Inl TypeError
      | Some True \<Rightarrow> Inr NotSet
      | Some False \<Rightarrow>
          (case max_index of
             Num n \<Rightarrow> Inr (Since n)
           | NaN \<Rightarrow> Inl ValueError
           | NA \<Rightarrow> Inl TypeError))"

subsection \<open>\<^verbatim>\<open>is_repo_we_care_about\<close>\<close>

text \<open>
  \<^verbatim>\<open>repo.public and repo.language == "C" and not repo.fork\<close>: \<^verbatim>\<open>and\<close> hands back its
  left operand when that is falsy, and reads the right operand only otherwise.
\<close>

definition is_repo_we_care_about :: "repository \<Rightarrow> error + py_value" where
  "is_repo_we_care_about repo =
     (case getattr repo ''public'' of
        Inl e \<Rightarrow> Inl e
      | Inr p \<Rightarrow>
          if \<not> py_truthy p then Inr p
          else (case getattr repo ''language'' of
                  Inl e \<Rightarrow> Inl e
                | Inr l \<Rightarrow>
                    if l \<noteq> PyStr ''C'' then Inr (PyBool False)
                    else (case getattr repo ''fork'' of
                            Inl e \<Rightarrow> Inl e
                          | Inr f \<Rightarrow> Inr (PyBool (\<not> py_truthy f)))))"

subsection \<open>\<^verbatim>\<open>save_repos_to_file\<close>\<close>

text \<open>The loop over \<^verbatim>\<open>PROPERTIES\<close> that fills \<^verbatim>\<open>repo_dict\<close>.\<close>

fun project :: "repository \<Rightarrow> string list \<Rightarrow> (string \<times> py_value) list
    \<Rightarrow> error + (string \<times> py_value) list" where
  "project repo [] repo_dict = Inr repo_dict"
| "project repo (prop # props) repo_dict =
     (case hasattr repo prop of
        Inl e \<Rightarrow> Inl e
      | Inr False \<Rightarrow> project repo props repo_dict
      | Inr True \<Rightarrow>
          (case getattr repo prop of
             Inl e \<Rightarrow> Inl e
           | Inr v \<Rightarrow> project repo props (AList.update prop v repo_dict)))"

text \<open>
  \<^verbatim>\<open>int(repo_dict["id"])\<close> under the bare \<^verbatim>\<open>except\<close>: a missing key and a value that
  \<^verbatim>\<open>int\<close> rejects both end in \<^verbatim>\<open>continue\<close>.
\<close>

definition id_is_int :: "(string \<times> py_value) list \<Rightarrow> bool" where
  "id_is_int repo_dict =
     (case map_of repo_dict ''id'' of
        None \<Rightarrow> False
      | Some v \<Rightarrow> py_int v \<noteq> None)"

text \<open>
  The inner \<^verbatim>\<open>try\<close> block of the loop body, up to the write. The file is written last,
  so an exception leaves it as it was; \<open>Inr f\<close> is the file afterwards, also when the
  identifier check skipped the repository.
\<close>

definition try_append :: "repository \<Rightarrow> csv_line list \<Rightarrow> error + csv_line list" where
  "try_append repo f =
     (case getattr repo ''name'' of
        Inl e \<Rightarrow> Inl e
      | Inr n \<Rightarrow>
          (case project repo PROPERTIES [] of
             Inl e \<Rightarrow> Inl e
           | Inr repo_dict \<Rightarrow>
               if id_is_int repo_dict then Inr (to_csv f repo_dict) else Inr f))"

fun has_message_attr :: "py_data \<Rightarrow> bool" where
  "has_message_attr (DataDict items) = False"
| "has_message_attr (DataObject attrs items) = (''message'' \<in> set attrs)"

fun data_get :: "py_data \<Rightarrow> string \<Rightarrow> error + string option" where
  "data_get (DataDict items) k = Inr (map_of items k)"
| "data_get (DataObject attrs items) k =
     (if ''get'' \<in> set attrs then Inr (map_of items k) else Inl AttributeError)"

text \<open>
  The handler \<^verbatim>\<open>except GithubException as e\<close>. \<open>None\<close> is \<^verbatim>\<open>continue\<close>; \<open>Some e\<close> is
  an exception that leaves the handler.
\<close>

definition on_github_exception :: "repository \<Rightarrow> py_data option \<Rightarrow> state \<Rightarrow> error option \<times> state" where
  "on_github_exception repo e_data st =
     (case e_data of
        None \<Rightarrow> (Some (GithubException e_data), st)
      | Some d \<Rightarrow>
          if has_message_attr d then
            (case getattr repo ''name'' of
               Inl e \<Rightarrow> (Some e, st)
             | Inr n \<Rightarrow>
                 (case data_get d ''message'' of
                    Inl e \<Rightarrow> (Some e, st)
                  | Inr m \<Rightarrow> (None, st\<lparr>errors_log := errors_log st @ [(n, m)]\<rparr>)))
          else (None, st))"

text \<open>One iteration of the \<^verbatim>\<open>for\<close> loop, with both handlers of the inner \<^verbatim>\<open>try\<close>.\<close>

definition loop_body :: "repository \<Rightarrow> state \<Rightarrow> error option \<times> state" where
  "loop_body repo st =
     (case try_append repo (csv st) of
        Inr f \<Rightarrow> (None, st\<lparr>csv := f\<rparr>)
      | Inl RateLimitExceededException \<Rightarrow> (Some RateLimitExceededException, st)
      | Inl (GithubException e_data) \<Rightarrow> on_github_exception repo e_data st
      | Inl e \<Rightarrow> (Some e, st))"

text \<open>
  The result is the exception that leaves the function, if any, and the state reached:
  what was appended before an exception stays in the file.
\<close>

fun save_repos_to_file :: "state \<Rightarrow> fetch list \<Rightarrow> error option \<times> state" where
  "save_repos_to_file st [] = (None, st)"
| "save_repos_to_file st (FetchRaises e # repos) = (Some e, st)"
| "save_repos_to_file st (Entity repo # repos) =
     (case loop_body repo st of
        (None, st') \<Rightarrow> save_repos_to_file st' repos
      | (Some e, st') \<Rightarrow> (Some e, st'))"

subsection \<open>\<^verbatim>\<open>get_repos_with_backoff\<close>\<close>

text \<open>
  The remote and the clock, as the answers they give to the invocation of depth \<open>k\<close>:
  the page list for a cursor and a visibility, the reset time of the core rate limit
  (\<^verbatim>\<open>get_rate_limit\<close> is a request of its own and can raise) and the current time, both
  in seconds since the epoch.
\<close>

record github =
  get_repos :: "nat \<Rightarrow> since \<Rightarrow> string \<Rightarrow> fetch list"
  core_reset :: "nat \<Rightarrow> error + int"
  gmtime :: "nat \<Rightarrow> int"

definition sleep_time :: "int \<Rightarrow> int \<Rightarrow> int" where
  "sleep_time reset_timestamp now = reset_timestamp - now + 5"

text \<open>\<^verbatim>\<open>time.sleep\<close> raises \<^verbatim>\<open>ValueError\<close> on a negative length.\<close>

definition time_sleep :: "int \<Rightarrow> state \<Rightarrow> error + state" where
  "time_sleep secs st =
     (if secs < 0 then Inl ValueError else Inr (st\<lparr>slept := slept st @ [secs]\<rparr>))"

text \<open>The \<^verbatim>\<open>try\<close> statement of \<^verbatim>\<open>get_repos_with_backoff\<close> with its handler.\<close>

definition fetch_or_back_off :: "github \<Rightarrow> state \<Rightarrow> since \<Rightarrow> error option \<times> state" where
  "fetch_or_back_off g st since =
     (case save_repos_to_file st (get_repos g (calls st) since ''public'') of
        (None, st') \<Rightarrow> (None, st')
      | (Some RateLimitExceededException, st') \<Rightarrow>
          (case core_reset g (calls st) of
             Inl e \<Rightarrow> (Some e, st')
           | Inr reset_timestamp \<Rightarrow>
               (case time_sleep (sleep_time reset_timestamp (gmtime g (calls st))) st' of
                  Inl e \<Rightarrow> (Some e, st')
                | Inr st'' \<Rightarrow> (None, st'')))
      | (Some e, st') \<Rightarrow> (Some e, st'))"

text \<open>
  The function ends in a call of itself, so it is given fuel: \<open>Running\<close> is an invocation
  chain that is still going when the fuel is used up. An invocation returns when the
  invocation it made returns, and passes on what that one raises. The depth limit of the
  interpreter is not modelled.
\<close>

datatype outcome = Running | Raised error | Returned

fun get_repos_with_backoff :: "nat \<Rightarrow> (py_value \<Rightarrow> error + int option) \<Rightarrow> github \<Rightarrow> state \<Rightarrow> since
    \<Rightarrow> outcome \<times> state" where
  "get_repos_with_backoff 0 to_numeric g st since = (Running, st)"
| "get_repos_with_backoff (Suc n) to_numeric g st since =
     (case fetch_or_back_off g st since of
        (Some e, st') \<Rightarrow> (Raised e, st')
      | (None, st') \<Rightarrow>
          (case read_csv to_numeric (csv st') of
             Inl e \<Rightarrow> (Raised e, st')
           | Inr df \<Rightarrow>
               (case get_max_id df of
                  Inl e \<Rightarrow> (Raised e, st')
                | Inr last_id \<Rightarrow>
                    (case get_repos_with_backoff n to_numeric g (st'\<lparr>calls := Suc (calls st')\<rparr>) last_id of
                       (Running, s) \<Rightarrow> (Running, s)
                     | (Raised e, s) \<Rightarrow> (Raised e, s)
                     | (Returned, s) \<Rightarrow> (Returned, s)))))"

subsection \<open>The start of the script\<close>

text \<open>
  \<^verbatim>\<open>last_id = 0\<close>, replaced by the maximum of the file when \<^verbatim>\<open>f.tell() != 0\<close>.
  Opening for appending creates a missing file, so a missing file is an empty one.
\<close>

definition main_last_id :: "(py_value \<Rightarrow> error + int option) \<Rightarrow> csv_line list \<Rightarrow> error + since" where
  "main_last_id to_numeric f =
     (if f \<noteq> [] then
        (case read_csv to_numeric f of Inl e \<Rightarrow> Inl e | Inr df \<Rightarrow> get_max_id df)
      else Inr (Since 0))"

section \<open>Sample inputs\<close>

text \<open>A run that starts with no file, nothing logged and nothing slept.\<close>

definition fresh :: state where
  "fresh = \<lparr>csv = [], errors_log = [], slept = [], calls = 0\<rparr>"

text \<open>
  A remote that answers every invocation with the same page list; \<open>reset\<close> and \<open>now\<close> are
  the reset time of the rate limit and the clock.
\<close>

definition remote :: "fetch list \<Rightarrow> int \<Rightarrow> int \<Rightarrow> github" where
  "remote page reset now =
     \<lparr>get_repos = (\<lambda>k since visibility. page), core_reset = (\<lambda>k. Inr reset),
      gmtime = (\<lambda>k. now)\<rparr>"

text \<open>
  Repositories as the remote may hand them out: a fork written in Python, one whose
  identifier is not a number, one without an identifier, and one whose completion the
  remote refuses with an error response (the body of the response is the dict in the
  exception).
\<close>

definition python_fork :: repository where
  "python_fork =
     (\<lambda>prop. Absent)
       (''name'' := Value (PyStr ''hello''),
        ''id'' := Value (PyInt 7),
        ''language'' := Value (PyStr ''Python''),
        ''fork'' := Value (PyBool True),
        ''public'' := Value (PyBool True))"

definition unparsable_id :: repository where
  "unparsable_id =
     (\<lambda>prop. Absent)(''name'' := Value (PyStr ''odd''), ''id'' := Value (PyStr ''12a''))"

definition no_id :: repository where
  "no_id = (\<lambda>prop. Absent)(''name'' := Value (PyStr ''anon''))"

definition blocked :: repository where
  "blocked =
     (\<lambda>prop. Absent)
       (''name'' := Value (PyStr ''gone''),
        ''id'' := Value (PyInt 9),
        ''allow_auto_merge'' :=
          Raises (GithubException (Some (DataDict [(''message'', ''Repository access blocked'')]))))"

text \<open>A repository whose completion runs into the rate limit.\<close>

definition throttled :: repository where
  "throttled =
     (\<lambda>prop. Absent)
       (''name'' := Value (PyStr ''late''),
        ''id'' := Value (PyInt 11),
        ''allow_auto_merge'' := Raises RateLimitExceededException)"

text \<open>
  A repository with a name and the identifier \<open>i\<close>, and a remote that hands out, for
  the cursor it is asked with, the repository with the next identifier; asked without a
  cursor it hands out the first repository and then runs into the rate limit.
\<close>

definition numbered :: "int \<Rightarrow> repository" where
  "numbered i = (\<lambda>prop. Absent)(''name'' := Value (PyStr ''repo''), ''id'' := Value (PyInt i))"

definition counting :: github where
  "counting =
     \<lparr>get_repos = (\<lambda>k since visibility.
        case since of
          NotSet \<Rightarrow> [Entity (numbered 1), FetchRaises RateLimitExceededException]
        | Since i \<Rightarrow> [Entity (numbered (i + 1))]),
      core_reset = (\<lambda>k. Inr 110), gmtime = (\<lambda>k. 100)\<rparr>"

text \<open>A numeric conversion that accepts no cell.\<close>

definition rejecting :: "py_value \<Rightarrow> error + int option" where
  "rejecting v = Inl ValueError"

section \<open>Attribute reads and the projection\<close>

lemma hasattr_cases:
  "hasattr repo p = Inr True \<longleftrightarrow> (\<exists>v. repo p = Value v)"
  "hasattr repo p = Inr False \<longleftrightarrow> (repo p = Absent \<or> repo p = Raises AttributeError)"
  by (auto simp: hasattr_def getattr_def split: attr.splits error.splits)

lemma getattr_Value: "getattr repo p = Inr v \<longleftrightarrow> repo p = Value v"
  by (auto simp: getattr_def split: attr.splits)

lemma project_map_of:
  "project repo props acc = Inr d \<Longrightarrow>
   map_of d k = (case repo k of Value v \<Rightarrow> if k \<in> set props then Some v else map_of acc k
                 | _ \<Rightarrow> map_of acc k)"
proof (induction props arbitrary: acc)
  case Nil
  then show ?case by (simp split: attr.splits)
next
  case (Cons p ps)
  show ?case
  proof (cases "hasattr repo p")
    case (Inl e)
    with Cons.prems show ?thesis by simp
  next
    case (Inr b)
    show ?thesis
    proof (cases b)
      case False
      with Inr Cons.prems have "project repo ps acc = Inr d" by simp
      from Cons.IH[OF this] Inr False show ?thesis
        by (auto simp: hasattr_cases split: attr.splits)
    next
      case True
      with Inr obtain v where v: "repo p = Value v" by (auto simp: hasattr_cases)
      with Inr True Cons.prems have "project repo ps (AList.update p v acc) = Inr d"
        by (simp add: getattr_def)
      from Cons.IH[OF this] v show ?thesis
        by (auto simp: update_conv' split: attr.splits)
    qed
  qed
qed

lemma series_max_Max:
  assumes "Some m \<in> set col"
  shows "series_max col = Num (Max {v. Some v \<in> set col})"
proof -
  let ?vs = "map the (filter (\<lambda>v. v \<noteq> None) col)"
  have set_vs: "set ?vs = {v. Some v \<in> set col}" by force
  from assms have "m \<in> set ?vs" unfolding set_vs by simp
  then have "?vs \<noteq> []" by (metis empty_iff list.set(1))
  then obtain x xs where xs: "?vs = x # xs" by (cases ?vs) auto
  have "fold max xs x = Max (set (x # xs))" by (rule Max.set_eq_fold[symmetric])
  with xs set_vs show ?thesis by (simp add: series_max_def)
qed

lemma series_max_NA: "(\<forall>v. Some v \<notin> set col) \<Longrightarrow> series_max col = NA"
proof -
  assume a: "\<forall>v. Some v \<notin> set col"
  from a have "\<forall>x \<in> set col. x = None" by (metis option.exhaust)
  then have "filter (\<lambda>v. v \<noteq> None) col = []"
    by (simp add: filter_empty_conv)
  then show ?thesis by (simp add: series_max_def)
qed

lemma read_ids_ints:
  assumes "\<forall>d \<in> set rows. \<exists>n. map_of d ''id'' = Some (PyInt n) \<and> in_int64 n"
  shows "\<exists>df. read_ids to_numeric (map Row rows) = Inr df \<and>
     {v. Some v \<in> set df} = {n. \<exists>d \<in> set rows. map_of d ''id'' = Some (PyInt n)}
     \<and> length df = length rows"
  using assms
proof (induction rows)
  case Nil
  then show ?case by simp
next
  case (Cons d ds)
  then obtain n where n: "map_of d ''id'' = Some (PyInt n)" "in_int64 n" by auto
  from Cons obtain df where df: "read_ids to_numeric (map Row ds) = Inr df"
    "{v. Some v \<in> set df} = {n. \<exists>d \<in> set ds. map_of d ''id'' = Some (PyInt n)}"
    "length df = length ds" by auto
  from n df(1) have "read_ids to_numeric (map Row (d # ds)) = Inr (Some n # df)" by simp
  moreover from n df(2) have "{v. Some v \<in> set (Some n # df)} =
      {n. \<exists>d \<in> set (d # ds). map_of d ''id'' = Some (PyInt n)}" by auto
  ultimately show ?case using df(3) by auto
qed

section \<open>The cursor derived from the store\<close>

text \<open>
  Claim C8. A store that holds at least one record, each with an integer identifier of the
  64-bit range, is read without error, and the cursor \<^verbatim>\<open>get_max_id\<close> derives from it is the
  largest identifier among its records. The store with the identifiers 5, 12 and 3 gives
  the cursor 12.
\<close>

theorem cursor_is_maximum_id:
  assumes "rows \<noteq> []"
    and "\<forall>d \<in> set rows. \<exists>n. map_of d ''id'' = Some (PyInt n) \<and> in_int64 n"
  shows "\<exists>df. read_csv to_numeric (Header # map Row rows) = Inr df \<and>
      get_max_id df = Inr (Since (Max {n. \<exists>d \<in> set rows. map_of d ''id'' = Some (PyInt n)}))"
proof -
  from read_ids_ints[OF assms(2), of to_numeric] obtain df where df: "read_ids to_numeric (map Row rows) = Inr df"
    "{v. Some v \<in> set df} = {n. \<exists>d \<in> set rows. map_of d ''id'' = Some (PyInt n)}"
    "length df = length rows" by auto
  from assms obtain d n where "d \<in> set rows" "map_of d ''id'' = Some (PyInt n)"
    by (cases rows) auto
  with df(2) have "Some n \<in> set df" by auto
  from series_max_Max[OF this] df(2) have "get_max_id df =
     Inr (Since (Max {n. \<exists>d \<in> set rows. map_of d ''id'' = Some (PyInt n)}))"
    by (simp add: get_max_id_def)
  with df(1) show ?thesis by (simp add: read_csv_def)
qed

theorem cursor_is_maximum_id_witness:
  "read_csv rejecting (Header # map Row [[(''id'', PyInt 5)], [(''id'', PyInt 12)], [(''id'', PyInt 3)]])
     = Inr [Some 5, Some 12, Some 3] \<and>
   get_max_id [Some 5, Some 12, Some 3] = Inr (Since 12)"
proof -
  let ?rows = "[[(''id'', PyInt 5)], [(''id'', PyInt 12)], [(''id'', PyInt 3)]]"
  have 1: "?rows \<noteq> []" by simp
  have 2: "\<forall>d \<in> set ?rows. \<exists>n. map_of d ''id'' = Some (PyInt n) \<and> in_int64 n"
    by (simp add: in_int64_def)
  have 3: "{n. \<exists>d \<in> set ?rows. map_of d ''id'' = Some (PyInt n)} = {5, 12, 3}"
    by auto
  have 4: "read_csv rejecting (Header # map Row ?rows) = Inr [Some 5, Some 12, Some 3]"
    by (simp add: read_csv_def in_int64_def)
  from cursor_is_maximum_id[OF 1 2, of rejecting] 3 4 show ?thesis by simp
qed

section \<open>What a run appends\<close>

text \<open>
  Every change of the file is a sequence of \<^verbatim>\<open>to_csv\<close> calls. The lemmas below follow
  the appended rows through one loop iteration, one page, one invocation with its
  back-off, and a chain of invocations.
\<close>

lemma outcome_pass:
  "(case x of (Running, s) \<Rightarrow> (Running, s) | (Raised e, s) \<Rightarrow> (Raised e, s)
      | (Returned, s) \<Rightarrow> (Returned, s)) = x"
  by (cases x; cases "fst x") auto

lemma get_repos_with_backoff_Suc:
  "get_repos_with_backoff (Suc n) to_numeric g st since =
     (case fetch_or_back_off g st since of
        (Some e, st') \<Rightarrow> (Raised e, st')
      | (None, st') \<Rightarrow>
          (case read_csv to_numeric (csv st') of
             Inl e \<Rightarrow> (Raised e, st')
           | Inr df \<Rightarrow>
               (case get_max_id df of
                  Inl e \<Rightarrow> (Raised e, st')
                | Inr last_id \<Rightarrow>
                    get_repos_with_backoff n to_numeric g (st'\<lparr>calls := Suc (calls st')\<rparr>) last_id)))"
  by (simp add: outcome_pass split: prod.splits option.splits sum.splits)

text \<open>
  An invocation goes on to the next one when the page was stored (or the back-off slept),
  the file could be read and a cursor came out of it; in every other case it raises.
\<close>

lemma get_repos_with_backoff_cases:
  obtains (raised) e st' where "get_repos_with_backoff (Suc n) to_numeric g st since = (Raised e, st')"
      and "fst (fetch_or_back_off g st since) = Some e \<or>
           (fetch_or_back_off g st since = (None, st') \<and>
            (read_csv to_numeric (csv st') = Inl e \<or>
             (\<exists>df. read_csv to_numeric (csv st') = Inr df \<and> get_max_id df = Inl e)))"
      and "snd (fetch_or_back_off g st since) = st'"
    | (next_call) st' df last_id where "fetch_or_back_off g st since = (None, st')"
      and "read_csv to_numeric (csv st') = Inr df" and "get_max_id df = Inr last_id"
      and "get_repos_with_backoff (Suc n) to_numeric g st since =
           get_repos_with_backoff n to_numeric g (st'\<lparr>calls := Suc (calls st')\<rparr>) last_id"
proof -
  obtain r1 st1 where f: "fetch_or_back_off g st since = (r1, st1)"
    by (cases "fetch_or_back_off g st since")
  show thesis
  proof (cases r1)
    case (Some e)
    with f have "get_repos_with_backoff (Suc n) to_numeric g st since = (Raised e, st1)"
      unfolding get_repos_with_backoff_Suc by simp
    with f Some show thesis by (intro raised[of e st1]) simp_all
  next
    case None
    show thesis
    proof (cases "read_csv to_numeric (csv st1)")
      case (Inl e)
      with f None have "get_repos_with_backoff (Suc n) to_numeric g st since = (Raised e, st1)"
        unfolding get_repos_with_backoff_Suc by simp
      with f None Inl show thesis by (intro raised[of e st1]) simp_all
    next
      case (Inr df)
      show thesis
      proof (cases "get_max_id df")
        case (Inl e)
        with f None Inr have "get_repos_with_backoff (Suc n) to_numeric g st since = (Raised e, st1)"
          unfolding get_repos_with_backoff_Suc by simp
        with f None Inr Inl show thesis by (intro raised[of e st1]) simp_all
      next
        case (Inr last_id)
        with f None \<open>read_csv to_numeric (csv st1) = Inr df\<close>
        have "get_repos_with_backoff (Suc n) to_numeric g st since =
           get_repos_with_backoff n to_numeric g (st1\<lparr>calls := Suc (calls st1)\<rparr>) last_id"
          unfolding get_repos_with_backoff_Suc by simp
        with f None Inr \<open>read_csv to_numeric (csv st1) = Inr df\<close>
        show thesis by (intro next_call[of st1 df last_id]) simp_all
      qed
    qed
  qed
qed

lemma fold_to_csv:
  "fold (\<lambda>d f. to_csv f d) ds f = (if f = [] \<and> ds \<noteq> [] then [Header] else f) @ map Row ds"
  by (induction ds arbitrary: f) (auto simp: to_csv_def)

lemma try_append_result:
  assumes "try_append repo f = Inr f'"
  shows "f' = f \<or> (\<exists>d. project repo PROPERTIES [] = Inr d \<and> id_is_int d \<and> f' = to_csv f d)"
  using assms by (auto simp: try_append_def split: sum.splits if_splits)

lemma on_github_exception_keeps:
  assumes "on_github_exception repo e_data st = (r, st')"
  shows "csv st' = csv st \<and> slept st' = slept st \<and> calls st' = calls st"
  using assms by (auto simp: on_github_exception_def split: option.splits if_splits sum.splits)

lemma loop_body_result:
  assumes "loop_body repo st = (r, st')"
  shows "slept st' = slept st \<and> calls st' = calls st \<and>
     (csv st' = csv st \<or>
      (\<exists>d. project repo PROPERTIES [] = Inr d \<and> id_is_int d \<and> csv st' = to_csv (csv st) d))"
proof (cases "try_append repo (csv st)")
  case (Inr f)
  with assms have "st' = st\<lparr>csv := f\<rparr>" by (simp add: loop_body_def)
  with try_append_result[OF Inr] show ?thesis by auto
next
  case (Inl e)
  show ?thesis
  proof (cases e)
    case (GithubException e_data)
    with Inl assms have "on_github_exception repo e_data st = (r, st')"
      by (simp add: loop_body_def)
    from on_github_exception_keeps[OF this] show ?thesis by simp
  qed (use Inl assms in \<open>auto simp: loop_body_def\<close>)
qed

lemma save_repos_to_file_appends:
  assumes "save_repos_to_file st repos = (r, st')"
  shows "slept st' = slept st \<and> calls st' = calls st \<and>
     (\<exists>ds. csv st' = fold (\<lambda>d f. to_csv f d) ds (csv st) \<and>
        (\<forall>d \<in> set ds. id_is_int d \<and>
           (\<exists>repo. Entity repo \<in> set repos \<and> project repo PROPERTIES [] = Inr d)))"
  using assms
proof (induction repos arbitrary: st)
  case Nil
  then have "st' = st" by simp
  then have "csv st' = fold (\<lambda>d f. to_csv f d) [] (csv st)" by simp
  with \<open>st' = st\<close> show ?case by (metis empty_iff list.set(1))
next
  case (Cons x xs)
  show ?case
  proof (cases x)
    case (FetchRaises e)
    with Cons.prems have "st' = st" by simp
    then have "csv st' = fold (\<lambda>d f. to_csv f d) [] (csv st)" by simp
    with \<open>st' = st\<close> show ?thesis by (metis empty_iff list.set(1))
  next
    case (Entity repo)
    obtain r1 st1 where body: "loop_body repo st = (r1, st1)" by (cases "loop_body repo st")
    note b = loop_body_result[OF body]
    have first: "\<exists>ds. csv st1 = fold (\<lambda>d f. to_csv f d) ds (csv st) \<and>
        (\<forall>d \<in> set ds. id_is_int d \<and> project repo PROPERTIES [] = Inr d)"
    proof (cases "csv st1 = csv st")
      case True
      then have "csv st1 = fold (\<lambda>d f. to_csv f d) [] (csv st)" by simp
      then show ?thesis by (metis empty_iff list.set(1))
    next
      case False
      with b obtain d where d: "project repo PROPERTIES [] = Inr d" "id_is_int d"
        "csv st1 = to_csv (csv st) d" by auto
      then have "csv st1 = fold (\<lambda>d f. to_csv f d) [d] (csv st)" by simp
      with d show ?thesis by (metis empty_iff empty_set set_ConsD)
    qed
    then obtain ds1 where ds1: "csv st1 = fold (\<lambda>d f. to_csv f d) ds1 (csv st)"
      "\<forall>d \<in> set ds1. id_is_int d \<and> project repo PROPERTIES [] = Inr d" by auto
    show ?thesis
    proof (cases r1)
      case (Some e)
      with body Entity Cons.prems have "st' = st1" by simp
      with b have k: "slept st' = slept st \<and> calls st' = calls st" by simp
      from ds1(2) Entity have m: "\<forall>d \<in> set ds1. id_is_int d \<and>
           (\<exists>repo. Entity repo \<in> set (x # xs) \<and> project repo PROPERTIES [] = Inr d)" by auto
      from ds1(1) \<open>st' = st1\<close> have c: "csv st' = fold (\<lambda>d f. to_csv f d) ds1 (csv st)" by simp
      from c m k show ?thesis by blast
    next
      case None
      with body Entity Cons.prems have "save_repos_to_file st1 xs = (r, st')" by simp
      from Cons.IH[OF this] obtain ds2 where ds2: "slept st' = slept st1" "calls st' = calls st1"
        "csv st' = fold (\<lambda>d f. to_csv f d) ds2 (csv st1)"
        "\<forall>d \<in> set ds2. id_is_int d \<and>
           (\<exists>repo. Entity repo \<in> set xs \<and> project repo PROPERTIES [] = Inr d)" by auto
      from ds1(1) ds2(3) have c: "csv st' = fold (\<lambda>d f. to_csv f d) (ds1 @ ds2) (csv st)" by simp
      from ds1(2) ds2(4) Entity have m: "\<forall>d \<in> set (ds1 @ ds2). id_is_int d \<and>
           (\<exists>repo. Entity repo \<in> set (x # xs) \<and> project repo PROPERTIES [] = Inr d)" by auto
      from ds2(1,2) b have k: "slept st' = slept st \<and> calls st' = calls st" by simp
      from c m k show ?thesis by blast
    qed
  qed
qed

lemma fetch_or_back_off_appends:
  assumes "fetch_or_back_off g st since = (r, st')"
  shows "calls st' = calls st \<and>
     (\<exists>ds. csv st' = fold (\<lambda>d f. to_csv f d) ds (csv st) \<and>
        (\<forall>d \<in> set ds. id_is_int d \<and>
           (\<exists>repo. Entity repo \<in> set (get_repos g (calls st) since ''public'') \<and>
              project repo PROPERTIES [] = Inr d)))"
proof -
  obtain r1 st1 where s: "save_repos_to_file st (get_repos g (calls st) since ''public'') = (r1, st1)"
    by (cases "save_repos_to_file st (get_repos g (calls st) since ''public'')")
  from assms s have "csv st' = csv st1 \<and> calls st' = calls st1"
    by (auto simp: fetch_or_back_off_def time_sleep_def
        split: option.splits error.splits sum.splits if_splits)
  with save_repos_to_file_appends[OF s] show ?thesis by simp
qed

lemma get_repos_with_backoff_appends:
  assumes "get_repos_with_backoff n to_numeric g st since = (out, st')"
  shows "\<exists>ds. csv st' = fold (\<lambda>d f. to_csv f d) ds (csv st) \<and>
        (\<forall>d \<in> set ds. id_is_int d \<and>
           (\<exists>k c repo. Entity repo \<in> set (get_repos g k c ''public'') \<and>
              project repo PROPERTIES [] = Inr d))"
  using assms
proof (induction n arbitrary: st since)
  case 0
  then have "csv st' = fold (\<lambda>d f. to_csv f d) [] (csv st)" by simp
  then show ?case by (metis empty_iff list.set(1))
next
  case (Suc n)
  obtain r1 st1 where f: "fetch_or_back_off g st since = (r1, st1)"
    by (cases "fetch_or_back_off g st since")
  from fetch_or_back_off_appends[OF f] obtain ds1 where
    ds1: "csv st1 = fold (\<lambda>d f. to_csv f d) ds1 (csv st)"
      "\<forall>d \<in> set ds1. id_is_int d \<and>
           (\<exists>k c repo. Entity repo \<in> set (get_repos g k c ''public'') \<and>
              project repo PROPERTIES [] = Inr d)" by blast
  show ?case
  proof (cases rule: get_repos_with_backoff_cases[of n to_numeric g st since])
    case (raised e st2)
    with f Suc.prems have "st' = st1" by simp
    with ds1 show ?thesis by blast
  next
    case (next_call st2 df last_id)
    with f have st2: "st2 = st1" by simp
    from next_call(4) Suc.prems st2 have
      "get_repos_with_backoff n to_numeric g (st1\<lparr>calls := Suc (calls st1)\<rparr>) last_id = (out, st')"
      by simp
    from Suc.IH[OF this] obtain ds2 where
      ds2: "csv st' = fold (\<lambda>d f. to_csv f d) ds2 (csv st1)"
      "\<forall>d \<in> set ds2. id_is_int d \<and>
           (\<exists>k c repo. Entity repo \<in> set (get_repos g k c ''public'') \<and>
              project repo PROPERTIES [] = Inr d)" by auto
    from ds1(1) ds2(1) have "csv st' = fold (\<lambda>d f. to_csv f d) (ds1 @ ds2) (csv st)" by simp
    moreover from ds1(2) ds2(2) have "\<forall>d \<in> set (ds1 @ ds2). id_is_int d \<and>
           (\<exists>k c repo. Entity repo \<in> set (get_repos g k c ''public'') \<and>
              project repo PROPERTIES [] = Inr d)" by auto
    ultimately show ?thesis by blast
  qed
qed

section \<open>Projections that cannot fail\<close>

lemma id_in_PROPERTIES: "''id'' \<in> set PROPERTIES"
  by (simp add: PROPERTIES_def)

lemma project_total:
  assumes "\<forall>prop e. repo prop \<noteq> Raises e"
  shows "\<exists>d. project repo props acc = Inr d"
proof (induction props arbitrary: acc)
  case Nil
  show ?case by simp
next
  case (Cons p ps)
  show ?case
  proof (cases "repo p")
    case Absent
    then have "hasattr repo p = Inr False" by (simp add: hasattr_cases)
    with Cons show ?thesis by simp
  next
    case (Value v)
    then have "hasattr repo p = Inr True" "getattr repo p = Inr v"
      by (simp_all add: hasattr_cases getattr_Value)
    with Cons show ?thesis by simp
  next
    case (Raises e)
    with assms show ?thesis by simp
  qed
qed

section \<open>The sample repositories, evaluated\<close>

lemma python_fork_dict:
  "project python_fork PROPERTIES [] =
     Inr [(''fork'', PyBool True), (''id'', PyInt 7), (''language'', PyStr ''Python''),
          (''name'', PyStr ''hello'')]"
  by (simp add: python_fork_def PROPERTIES_def hasattr_def getattr_def)

lemma python_fork_body:
  "loop_body python_fork st =
     (None, st\<lparr>csv := to_csv (csv st)
        [(''fork'', PyBool True), (''id'', PyInt 7), (''language'', PyStr ''Python''),
         (''name'', PyStr ''hello'')]\<rparr>)"
proof -
  have "getattr python_fork ''name'' = Inr (PyStr ''hello'')"
    by (simp add: python_fork_def getattr_def)
  then show ?thesis
    by (simp add: loop_body_def try_append_def python_fork_dict id_is_int_def)
qed

lemma unparsable_id_dict:
  "project unparsable_id PROPERTIES [] = Inr [(''id'', PyStr ''12a''), (''name'', PyStr ''odd'')]"
  by (simp add: unparsable_id_def PROPERTIES_def hasattr_def getattr_def)

lemma int_12a: "int_of_str ''12a'' = None"
  by (simp add: int_of_str_def strip_def is_space_def unsigned_val_def digit_val_def)

lemma no_id_dict:
  "project no_id PROPERTIES [] = Inr [(''name'', PyStr ''anon'')]"
  by (simp add: no_id_def PROPERTIES_def hasattr_def getattr_def)

lemma blocked_body: "loop_body blocked st = (None, st)"
proof -
  have "getattr blocked ''name'' = Inr (PyStr ''gone'')"
    by (simp add: blocked_def getattr_def)
  moreover have "project blocked PROPERTIES [] =
      Inl (GithubException (Some (DataDict [(''message'', ''Repository access blocked'')])))"
    by (simp add: blocked_def PROPERTIES_def hasattr_def getattr_def)
  ultimately show ?thesis
    by (simp add: loop_body_def try_append_def on_github_exception_def)
qed

section \<open>The header row\<close>

lemma header_count_fold:
  "count_list (fold (\<lambda>d f. to_csv f d) ds f) Header =
     count_list f Header + (if f = [] \<and> ds \<noteq> [] then 1 else 0)"
proof -
  have "count_list (map Row ds) Header = 0"
    by (induction ds) auto
  then show ?thesis by (simp add: fold_to_csv)
qed

lemma fold_to_csv_empty:
  "f = [] \<and> fold (\<lambda>d f. to_csv f d) ds f \<noteq> [] \<longleftrightarrow> f = [] \<and> ds \<noteq> []"
  by (auto simp: fold_to_csv)

lemma row_count_fold:
  "count_list (fold (\<lambda>d f. to_csv f d) ds f) (Row d) = count_list f (Row d) + count_list ds d"
proof -
  have "count_list (map Row ds) (Row d) = count_list ds d"
    by (induction ds) auto
  then show ?thesis by (simp add: fold_to_csv)
qed

text \<open>
  Claim C4. The header row is written at most once, however many rows, pages and
  invocations append to the file: one \<^verbatim>\<open>to_csv\<close> call writes it exactly when the file is
  empty, and over a page as over a chain of invocations the number of header rows grows by
  one when the file was empty at the first append and by nothing otherwise.
\<close>

theorem header_written_at_most_once:
  "count_list (to_csv f d) Header = count_list f Header + (if f = [] then 1 else 0) \<and>
   (save_repos_to_file st repos = (r, st') \<longrightarrow>
      count_list (csv st') Header =
        count_list (csv st) Header + (if csv st = [] \<and> csv st' \<noteq> [] then 1 else 0)) \<and>
   (get_repos_with_backoff n to_numeric g st since = (out, st'') \<longrightarrow>
      count_list (csv st'') Header =
        count_list (csv st) Header + (if csv st = [] \<and> csv st'' \<noteq> [] then 1 else 0))"
proof (intro conjI impI)
  show "count_list (to_csv f d) Header = count_list f Header + (if f = [] then 1 else 0)"
    by (simp add: to_csv_def)
next
  assume "save_repos_to_file st repos = (r, st')"
  from save_repos_to_file_appends[OF this] obtain ds
    where "csv st' = fold (\<lambda>d f. to_csv f d) ds (csv st)" by blast
  then show "count_list (csv st') Header =
      count_list (csv st) Header + (if csv st = [] \<and> csv st' \<noteq> [] then 1 else 0)"
    using header_count_fold[of ds "csv st"] fold_to_csv_empty[of "csv st" ds] by simp
next
  assume "get_repos_with_backoff n to_numeric g st since = (out, st'')"
  from get_repos_with_backoff_appends[OF this] obtain ds
    where "csv st'' = fold (\<lambda>d f. to_csv f d) ds (csv st)" by blast
  then show "count_list (csv st'') Header =
      count_list (csv st) Header + (if csv st = [] \<and> csv st'' \<noteq> [] then 1 else 0)"
    using header_count_fold[of ds "csv st"] fold_to_csv_empty[of "csv st" ds] by simp
qed

lemma two_cycles:
  "get_repos_with_backoff 2 rejecting (remote [Entity python_fork] 0 0) fresh NotSet =
     (Running, fresh\<lparr>csv := [Header,
        Row [(''fork'', PyBool True), (''id'', PyInt 7), (''language'', PyStr ''Python''),
             (''name'', PyStr ''hello'')],
        Row [(''fork'', PyBool True), (''id'', PyInt 7), (''language'', PyStr ''Python''),
             (''name'', PyStr ''hello'')]], calls := 2\<rparr>)"
  by (simp add: numeral_2_eq_2 fetch_or_back_off_def remote_def python_fork_body to_csv_def
      read_csv_def in_int64_def get_max_id_def series_max_def fresh_def)

theorem header_written_at_most_once_witness:
  "save_repos_to_file fresh [Entity python_fork, Entity python_fork] =
     (None, fresh\<lparr>csv := [Header,
        Row [(''fork'', PyBool True), (''id'', PyInt 7), (''language'', PyStr ''Python''),
             (''name'', PyStr ''hello'')],
        Row [(''fork'', PyBool True), (''id'', PyInt 7), (''language'', PyStr ''Python''),
             (''name'', PyStr ''hello'')]]\<rparr>) \<and>
   count_list (csv (snd (save_repos_to_file fresh [Entity python_fork, Entity python_fork]))) Header = 1 \<and>
   count_list (csv (snd (get_repos_with_backoff 2 rejecting (remote [Entity python_fork] 0 0) fresh NotSet)))
      Header = 1"
proof -
  let ?d = "[(''fork'', PyBool True), (''id'', PyInt 7), (''language'', PyStr ''Python''),
             (''name'', PyStr ''hello'')]"
  let ?st = "fresh\<lparr>csv := [Header, Row ?d, Row ?d]\<rparr>"
  have 1: "save_repos_to_file fresh [Entity python_fork, Entity python_fork] = (None, ?st)"
    by (simp add: python_fork_body to_csv_def fresh_def)
  note 2 = two_cycles
  from header_written_at_most_once[of "[]" ?d fresh "[Entity python_fork, Entity python_fork]"
      None ?st 2 rejecting "remote [Entity python_fork] 0 0" NotSet Running "?st\<lparr>calls := 2\<rparr>"] 1 2
  show ?thesis by (simp add: fresh_def)
qed

section \<open>Which repositories are written\<close>

lemma loop_body_readable:
  assumes "\<forall>prop e. repo prop \<noteq> Raises e" and "repo ''name'' = Value n"
  shows "\<exists>d. project repo PROPERTIES [] = Inr d \<and>
     loop_body repo st = (None, st\<lparr>csv := (if id_is_int d then to_csv (csv st) d else csv st)\<rparr>)"
proof -
  from project_total[OF assms(1)] obtain d where d: "project repo PROPERTIES [] = Inr d"
    by blast
  from assms(2) have "getattr repo ''name'' = Inr n" by (simp add: getattr_Value)
  with d have "loop_body repo st =
      (None, st\<lparr>csv := (if id_is_int d then to_csv (csv st) d else csv st)\<rparr>)"
    by (simp add: loop_body_def try_append_def)
  with d show ?thesis by blast
qed

lemma project_id:
  assumes "project repo PROPERTIES [] = Inr d"
  shows "map_of d ''id'' = (case repo ''id'' of Value v \<Rightarrow> Some v | _ \<Rightarrow> None)"
  using project_map_of[OF assms, of "''id''"] id_in_PROPERTIES
  by (simp split: attr.splits)

text \<open>
  Claim C1, as stated, has every appended record pass the filter (public, language C, not
  a fork). \<^verbatim>\<open>save_repos_to_file\<close> never calls \<^verbatim>\<open>is_repo_we_care_about\<close>: a fork written in
  Python, which the filter rejects, is appended.
\<close>

theorem filter_not_applied_counterexample:
  "is_repo_we_care_about python_fork = Inr (PyBool False) \<and>
   save_repos_to_file fresh [Entity python_fork] =
     (None, fresh\<lparr>csv := [Header,
        Row [(''fork'', PyBool True), (''id'', PyInt 7), (''language'', PyStr ''Python''),
             (''name'', PyStr ''hello'')]]\<rparr>)"
proof -
  have "is_repo_we_care_about python_fork = Inr (PyBool False)"
    by (simp add: is_repo_we_care_about_def getattr_def python_fork_def)
  moreover have "save_repos_to_file fresh [Entity python_fork] =
     (None, fresh\<lparr>csv := [Header,
        Row [(''fork'', PyBool True), (''id'', PyInt 7), (''language'', PyStr ''Python''),
             (''name'', PyStr ''hello'')]]\<rparr>)"
    by (simp add: python_fork_body to_csv_def fresh_def)
  ultimately show ?thesis by simp
qed

text \<open>
  Claim C1, amended. For every sequence of entities fetched from the remote, every record
  appended to the store is the projection of a fetched entity whose identifier \<^verbatim>\<open>int\<close>
  accepts; the filter predicate is not consulted, so an entity whose attributes can be
  read, that has a name and whose identifier \<^verbatim>\<open>int\<close> accepts is written whatever the
  predicate says of it.
\<close>

theorem appended_records_have_integer_id:
  "(save_repos_to_file st repos = (r, st') \<longrightarrow>
      (\<exists>ds. csv st' = fold (\<lambda>d f. to_csv f d) ds (csv st) \<and>
         (\<forall>d \<in> set ds. id_is_int d \<and>
            (\<exists>repo. Entity repo \<in> set repos \<and> project repo PROPERTIES [] = Inr d)))) \<and>
   ((\<forall>prop e. repo prop \<noteq> Raises e) \<and> repo ''name'' = Value n \<and>
    repo ''id'' = Value v \<and> py_int v = Some i \<longrightarrow>
      (\<exists>d. project repo PROPERTIES [] = Inr d \<and>
         loop_body repo st = (None, st\<lparr>csv := to_csv (csv st) d\<rparr>)))"
proof (intro conjI impI)
  assume "save_repos_to_file st repos = (r, st')"
  from save_repos_to_file_appends[OF this]
  show "\<exists>ds. csv st' = fold (\<lambda>d f. to_csv f d) ds (csv st) \<and>
         (\<forall>d \<in> set ds. id_is_int d \<and>
            (\<exists>repo. Entity repo \<in> set repos \<and> project repo PROPERTIES [] = Inr d))"
    by blast
next
  assume a: "(\<forall>prop e. repo prop \<noteq> Raises e) \<and> repo ''name'' = Value n \<and>
    repo ''id'' = Value v \<and> py_int v = Some i"
  then have r: "\<forall>prop e. repo prop \<noteq> Raises e" and nm: "repo ''name'' = Value n" by simp_all
  from loop_body_readable[OF r nm, of st] obtain d where
    d: "project repo PROPERTIES [] = Inr d"
    "loop_body repo st = (None, st\<lparr>csv := (if id_is_int d then to_csv (csv st) d else csv st)\<rparr>)"
    by blast
  from project_id[OF d(1)] a have "id_is_int d" by (simp add: id_is_int_def)
  with d show "\<exists>d. project repo PROPERTIES [] = Inr d \<and>
         loop_body repo st = (None, st\<lparr>csv := to_csv (csv st) d\<rparr>)" by auto
qed

lemma python_fork_readable: "\<forall>prop e. python_fork prop \<noteq> Raises e"
  by (simp add: python_fork_def)

theorem appended_records_have_integer_id_witness:
  "save_repos_to_file fresh [Entity python_fork] =
     (None, fresh\<lparr>csv := [Header,
        Row [(''fork'', PyBool True), (''id'', PyInt 7), (''language'', PyStr ''Python''),
             (''name'', PyStr ''hello'')]]\<rparr>) \<and>
   (\<forall>prop e. python_fork prop \<noteq> Raises e) \<and> python_fork ''name'' = Value (PyStr ''hello'') \<and>
   python_fork ''id'' = Value (PyInt 7) \<and> py_int (PyInt 7) = Some 7 \<and>
   (\<exists>ds. [Header,
        Row [(''fork'', PyBool True), (''id'', PyInt 7), (''language'', PyStr ''Python''),
             (''name'', PyStr ''hello'')]] = fold (\<lambda>d f. to_csv f d) ds [] \<and>
      (\<forall>d \<in> set ds. id_is_int d)) \<and>
   (\<exists>d. project python_fork PROPERTIES [] = Inr d \<and>
      loop_body python_fork fresh = (None, fresh\<lparr>csv := to_csv [] d\<rparr>))"
proof -
  let ?d = "[(''fork'', PyBool True), (''id'', PyInt 7), (''language'', PyStr ''Python''),
             (''name'', PyStr ''hello'')]"
  let ?st = "fresh\<lparr>csv := [Header, Row ?d]\<rparr>"
  have 1: "save_repos_to_file fresh [Entity python_fork] = (None, ?st)"
    by (simp add: python_fork_body to_csv_def fresh_def)
  have 2: "(\<forall>prop e. python_fork prop \<noteq> Raises e) \<and>
      python_fork ''name'' = Value (PyStr ''hello'') \<and>
      python_fork ''id'' = Value (PyInt 7) \<and> py_int (PyInt 7) = Some 7"
    by (simp add: python_fork_def)
  have 3: "csv fresh = []" "csv ?st = [Header, Row ?d]" by (simp_all add: fresh_def)
  from appended_records_have_integer_id[of fresh "[Entity python_fork]" None ?st python_fork
      "PyStr ''hello''" "PyInt 7" 7] 1 2
  have "(\<exists>ds. csv ?st = fold (\<lambda>d f. to_csv f d) ds (csv fresh) \<and>
         (\<forall>d \<in> set ds. id_is_int d \<and>
            (\<exists>repo. Entity repo \<in> set [Entity python_fork] \<and> project repo PROPERTIES [] = Inr d)))
     \<and> (\<exists>d. project python_fork PROPERTIES [] = Inr d \<and>
         loop_body python_fork fresh = (None, fresh\<lparr>csv := to_csv (csv fresh) d\<rparr>))"
    by blast
  then have "(\<exists>ds. [Header, Row ?d] = fold (\<lambda>d f. to_csv f d) ds [] \<and> (\<forall>d \<in> set ds. id_is_int d))
     \<and> (\<exists>d. project python_fork PROPERTIES [] = Inr d \<and>
         loop_body python_fork fresh = (None, fresh\<lparr>csv := to_csv [] d\<rparr>))"
    unfolding 3 by blast
  with 1 2 show ?thesis by blast
qed

section \<open>Identifiers that are not integers\<close>

lemma unparsable_id_body: "loop_body unparsable_id st = (None, st)"
proof -
  have "getattr unparsable_id ''name'' = Inr (PyStr ''odd'')"
    by (simp add: unparsable_id_def getattr_def)
  then show ?thesis
    by (simp add: loop_body_def try_append_def unparsable_id_dict id_is_int_def int_12a)
qed

text \<open>
  Claim C7. A record whose identifier \<^verbatim>\<open>int\<close> does not accept is never appended: the
  iteration that projected it leaves the file as it was, so the cursor read from the file
  afterwards is the cursor read before, and neither a page nor a chain of invocations adds
  a row holding that record.
\<close>

theorem unparsable_id_never_appended:
  "\<not> id_is_int d \<longrightarrow>
     (project repo PROPERTIES [] = Inr d \<longrightarrow>
        csv (snd (loop_body repo st)) = csv st \<and>
        main_last_id to_numeric (csv (snd (loop_body repo st))) = main_last_id to_numeric (csv st) \<and>
        (case read_csv to_numeric (csv (snd (loop_body repo st))) of
           Inl e \<Rightarrow> Inl e | Inr df \<Rightarrow> get_max_id df) =
        (case read_csv to_numeric (csv st) of Inl e \<Rightarrow> Inl e | Inr df \<Rightarrow> get_max_id df)) \<and>
     (save_repos_to_file st repos = (r, st') \<longrightarrow>
        count_list (csv st') (Row d) = count_list (csv st) (Row d)) \<and>
     (get_repos_with_backoff k to_numeric g st since = (out, st'') \<longrightarrow>
        count_list (csv st'') (Row d) = count_list (csv st) (Row d))"
proof (intro impI conjI)
  assume n: "\<not> id_is_int d" and p: "project repo PROPERTIES [] = Inr d"
  obtain r1 st1 where b: "loop_body repo st = (r1, st1)" by (cases "loop_body repo st")
  from loop_body_result[OF b] n p have "csv st1 = csv st" by auto
  with b show same: "csv (snd (loop_body repo st)) = csv st" by simp
  then show "main_last_id to_numeric (csv (snd (loop_body repo st))) = main_last_id to_numeric (csv st)"
    by simp
  from same show "(case read_csv to_numeric (csv (snd (loop_body repo st))) of
           Inl e \<Rightarrow> Inl e | Inr df \<Rightarrow> get_max_id df) =
        (case read_csv to_numeric (csv st) of Inl e \<Rightarrow> Inl e | Inr df \<Rightarrow> get_max_id df)"
    by simp
next
  assume n: "\<not> id_is_int d" and "save_repos_to_file st repos = (r, st')"
  from save_repos_to_file_appends[OF this(2)] obtain ds where
    ds: "csv st' = fold (\<lambda>d f. to_csv f d) ds (csv st)" "\<forall>d \<in> set ds. id_is_int d" by blast
  from ds(2) n have "d \<notin> set ds" by blast
  then have "count_list ds d = 0" by simp
  with ds(1) show "count_list (csv st') (Row d) = count_list (csv st) (Row d)"
    by (simp add: row_count_fold)
next
  assume n: "\<not> id_is_int d" and "get_repos_with_backoff k to_numeric g st since = (out, st'')"
  from get_repos_with_backoff_appends[OF this(2)] obtain ds where
    ds: "csv st'' = fold (\<lambda>d f. to_csv f d) ds (csv st)" "\<forall>d \<in> set ds. id_is_int d" by blast
  from ds(2) n have "d \<notin> set ds" by blast
  then have "count_list ds d = 0" by simp
  with ds(1) show "count_list (csv st'') (Row d) = count_list (csv st) (Row d)"
    by (simp add: row_count_fold)
qed

theorem unparsable_id_never_appended_witness:
  "\<not> id_is_int [(''id'', PyStr ''12a''), (''name'', PyStr ''odd'')] \<and>
   project unparsable_id PROPERTIES [] = Inr [(''id'', PyStr ''12a''), (''name'', PyStr ''odd'')] \<and>
   save_repos_to_file (fresh\<lparr>csv := [Header, Row [(''id'', PyInt 4)]]\<rparr>) [Entity unparsable_id]
     = (None, fresh\<lparr>csv := [Header, Row [(''id'', PyInt 4)]]\<rparr>) \<and>
   csv (snd (loop_body unparsable_id (fresh\<lparr>csv := [Header, Row [(''id'', PyInt 4)]]\<rparr>)))
     = [Header, Row [(''id'', PyInt 4)]] \<and>
   main_last_id rejecting (csv (snd (loop_body unparsable_id
       (fresh\<lparr>csv := [Header, Row [(''id'', PyInt 4)]]\<rparr>)))) = Inr (Since 4)"
proof -
  let ?d = "[(''id'', PyStr ''12a''), (''name'', PyStr ''odd'')]"
  let ?st = "fresh\<lparr>csv := [Header, Row [(''id'', PyInt 4)]]\<rparr>"
  have 1: "\<not> id_is_int ?d" by (simp add: id_is_int_def int_12a)
  note 2 = unparsable_id_dict
  have 3: "save_repos_to_file ?st [Entity unparsable_id] = (None, ?st)"
    by (simp add: unparsable_id_body)
  have 4: "main_last_id rejecting (csv ?st) = Inr (Since 4)"
    by (simp add: main_last_id_def read_csv_def in_int64_def get_max_id_def series_max_def)
  from unparsable_id_never_appended[of ?d unparsable_id ?st rejecting "[Entity unparsable_id]"
      None ?st 0 "remote [] 0 0" NotSet Running ?st] 1 2
  have "csv (snd (loop_body unparsable_id ?st)) = csv ?st \<and>
        main_last_id rejecting (csv (snd (loop_body unparsable_id ?st))) =
          main_last_id rejecting (csv ?st)" by blast
  with 1 2 3 4 show ?thesis by simp
qed

section \<open>The projection\<close>

text \<open>
  Claim C10. The projection copies an attribute only when the entity has it, with the
  value the entity has. An entity without an identifier attribute, whose other attributes
  can be read, is skipped: the iteration ends without an exception and changes nothing.
  Hence every appended row has an identifier, and \<^verbatim>\<open>int\<close> accepts it.
\<close>

theorem projection_copies_present_attributes:
  "(project repo PROPERTIES [] = Inr d \<and> map_of d key = Some v \<longrightarrow>
      repo key = Value v \<and> key \<in> set PROPERTIES) \<and>
   ((\<forall>prop e. repo prop \<noteq> Raises e) \<and> repo ''name'' = Value n \<and> repo ''id'' = Absent \<longrightarrow>
      loop_body repo st = (None, st)) \<and>
   (save_repos_to_file st repos = (r, st') \<longrightarrow>
      (\<exists>ds. csv st' = fold (\<lambda>d f. to_csv f d) ds (csv st) \<and>
         (\<forall>d \<in> set ds. \<exists>v i. map_of d ''id'' = Some v \<and> py_int v = Some i)))"
proof (intro conjI impI)
  assume a: "project repo PROPERTIES [] = Inr d \<and> map_of d key = Some v"
  then have p: "project repo PROPERTIES [] = Inr d" and m: "map_of d key = Some v" by simp_all
  from project_map_of[OF p, of key] m
  show "repo key = Value v" by (simp split: attr.splits if_splits)
  from project_map_of[OF p, of key] m
  show "key \<in> set PROPERTIES" by (simp split: attr.splits if_splits)
next
  assume a: "(\<forall>prop e. repo prop \<noteq> Raises e) \<and> repo ''name'' = Value n \<and> repo ''id'' = Absent"
  then have r: "\<forall>prop e. repo prop \<noteq> Raises e" and nm: "repo ''name'' = Value n" by simp_all
  from loop_body_readable[OF r nm, of st] obtain d where
    d: "project repo PROPERTIES [] = Inr d"
    "loop_body repo st = (None, st\<lparr>csv := (if id_is_int d then to_csv (csv st) d else csv st)\<rparr>)"
    by blast
  from project_id[OF d(1)] a have "\<not> id_is_int d" by (simp add: id_is_int_def)
  with d(2) show "loop_body repo st = (None, st)" by simp
next
  assume "save_repos_to_file st repos = (r, st')"
  from save_repos_to_file_appends[OF this] obtain ds where
    ds: "csv st' = fold (\<lambda>d f. to_csv f d) ds (csv st)" "\<forall>d \<in> set ds. id_is_int d" by blast
  have "\<forall>d \<in> set ds. \<exists>v i. map_of d ''id'' = Some v \<and> py_int v = Some i"
  proof
    fix d assume "d \<in> set ds"
    with ds(2) have "id_is_int d" by blast
    then show "\<exists>v i. map_of d ''id'' = Some v \<and> py_int v = Some i"
      by (auto simp: id_is_int_def split: option.splits)
  qed
  with ds(1) show "\<exists>ds. csv st' = fold (\<lambda>d f. to_csv f d) ds (csv st) \<and>
         (\<forall>d \<in> set ds. \<exists>v i. map_of d ''id'' = Some v \<and> py_int v = Some i)" by blast
qed

theorem projection_copies_present_attributes_witness:
  "project no_id PROPERTIES [] = Inr [(''name'', PyStr ''anon'')] \<and>
   map_of [(''name'', PyStr ''anon'')] ''name'' = Some (PyStr ''anon'') \<and>
   no_id ''name'' = Value (PyStr ''anon'') \<and> ''name'' \<in> set PROPERTIES \<and>
   (\<forall>prop e. no_id prop \<noteq> Raises e) \<and> no_id ''id'' = Absent \<and>
   loop_body no_id fresh = (None, fresh) \<and>
   save_repos_to_file fresh [Entity no_id, Entity python_fork] =
     (None, fresh\<lparr>csv := [Header,
        Row [(''fork'', PyBool True), (''id'', PyInt 7), (''language'', PyStr ''Python''),
             (''name'', PyStr ''hello'')]]\<rparr>)"
proof -
  let ?d = "[(''fork'', PyBool True), (''id'', PyInt 7), (''language'', PyStr ''Python''),
             (''name'', PyStr ''hello'')]"
  let ?st = "fresh\<lparr>csv := [Header, Row ?d]\<rparr>"
  have 1: "project no_id PROPERTIES [] = Inr [(''name'', PyStr ''anon'')] \<and>
      map_of [(''name'', PyStr ''anon'')] ''name'' = Some (PyStr ''anon'')"
    by (simp add: no_id_dict)
  have 2: "(\<forall>prop e. no_id prop \<noteq> Raises e) \<and> no_id ''name'' = Value (PyStr ''anon'') \<and>
      no_id ''id'' = Absent" by (simp add: no_id_def)
  from projection_copies_present_attributes[of no_id "[(''name'', PyStr ''anon'')]" "''name''"
      "PyStr ''anon''" "PyStr ''anon''" fresh "[]" None fresh] 1 2
  have 3: "no_id ''name'' = Value (PyStr ''anon'') \<and> ''name'' \<in> set PROPERTIES \<and>
      loop_body no_id fresh = (None, fresh)" by blast
  then have "save_repos_to_file fresh [Entity no_id, Entity python_fork] = (None, ?st)"
    by (simp add: python_fork_body to_csv_def fresh_def)
  with 1 2 3 show ?thesis by simp
qed

section \<open>The cursor of a store without records\<close>

text \<open>
  At the start a file of zero bytes is not read: the guard \<^verbatim>\<open>f.tell() != 0\<close> leaves
  \<^verbatim>\<open>last_id = 0\<close>.
\<close>

lemma main_last_id_empty_file: "main_last_id to_numeric [] = Inr (Since 0)"
  by (simp add: main_last_id_def)

text \<open>
  Claim C2 expects the cursor "unset" for a store without records, and the docstring of
  \<^verbatim>\<open>get_max_id\<close> promises \<^verbatim>\<open>NotSet\<close> there. For the store that holds the header row and
  no record the identifier column has no value, its maximum is \<^verbatim>\<open>pd.NA\<close>, and the test
  \<^verbatim>\<open>if np.isnan(max_index)\<close> raises \<^verbatim>\<open>TypeError\<close>: at the start of the script, and in an
  invocation of \<^verbatim>\<open>get_repos_with_backoff\<close> that recomputes the cursor after an empty page.
\<close>

theorem header_only_store_raises:
  "get_max_id [] = Inl TypeError \<and>
   main_last_id to_numeric [Header] = Inl TypeError \<and>
   get_repos_with_backoff (Suc n) to_numeric (remote [] reset now) (fresh\<lparr>csv := [Header]\<rparr>) since =
     (Raised TypeError, fresh\<lparr>csv := [Header]\<rparr>)"
  by (simp add: get_max_id_def series_max_def main_last_id_def read_csv_def
      fetch_or_back_off_def remote_def fresh_def)

section \<open>The back-off duration\<close>

text \<open>
  Claim C3 expects a pause of no length when the computed duration is zero or negative.
  The duration is the reset time minus the current time plus 5 seconds, 15 for the reset
  time \<open>T\<close> and the current time \<open>T - 10\<close>. With the reset time 100 and the clock at 110
  it is -5; the handler hands it to \<^verbatim>\<open>time.sleep\<close> as it is, \<^verbatim>\<open>time.sleep\<close> raises
  \<^verbatim>\<open>ValueError\<close>, and the invocation ends with it instead of sleeping until the reset.
\<close>

theorem negative_backoff_raises:
  "sleep_time T (T - 10) = 15 \<and>
   sleep_time 100 110 = - 5 \<and>
   time_sleep (sleep_time 100 110) st = Inl ValueError \<and>
   get_repos_with_backoff (Suc n) to_numeric
       (remote [FetchRaises RateLimitExceededException] 100 110) fresh NotSet
     = (Raised ValueError, fresh)"
  by (simp add: sleep_time_def time_sleep_def fetch_or_back_off_def remote_def fresh_def)

section \<open>Rate-limit exhaustion\<close>

lemma save_repos_to_file_append:
  "save_repos_to_file st (xs @ ys) =
     (case save_repos_to_file st xs of
        (None, st1) \<Rightarrow> save_repos_to_file st1 ys
      | (Some e, st1) \<Rightarrow> (Some e, st1))"
proof (induction xs arbitrary: st)
  case Nil
  show ?case by simp
next
  case (Cons x xs)
  show ?case
  proof (cases x)
    case (FetchRaises e)
    then show ?thesis by simp
  next
    case (Entity repo)
    then show ?thesis
      by (cases "loop_body repo st") (auto simp: Cons.IH split: option.splits)
  qed
qed

lemma loop_body_rate_limit:
  assumes "loop_body repo st = (Some RateLimitExceededException, st')"
  shows "st' = st"
proof (cases "try_append repo (csv st)")
  case (Inr f)
  with assms show ?thesis by (simp add: loop_body_def)
next
  case (Inl e)
  show ?thesis
  proof (cases e)
    case (GithubException e_data)
    with Inl assms have "on_github_exception repo e_data st = (Some RateLimitExceededException, st')"
      by (simp add: loop_body_def)
    then show ?thesis
      by (auto simp: on_github_exception_def split: option.splits if_splits sum.splits)
  qed (use Inl assms in \<open>auto simp: loop_body_def\<close>)
qed

lemma throttled_body: "loop_body throttled st = (Some RateLimitExceededException, st)"
proof -
  have "getattr throttled ''name'' = Inr (PyStr ''late'')"
    by (simp add: throttled_def getattr_def)
  moreover have "project throttled PROPERTIES [] = Inl RateLimitExceededException"
    by (simp add: throttled_def PROPERTIES_def hasattr_def getattr_def)
  ultimately show ?thesis
    by (simp add: loop_body_def try_append_def)
qed

text \<open>
  The rate-limit exception ends the page where it occurs, while the next entity is
  requested or while an entity is completed: the file is as the entities before left it,
  and the entities after are not looked at.
\<close>

lemma rate_limit_abandons_page:
  assumes "save_repos_to_file st pre = (None, st1)"
  shows "save_repos_to_file st (pre @ FetchRaises RateLimitExceededException # rest)
           = (Some RateLimitExceededException, st1)"
    and "fst (loop_body repo st1) = Some RateLimitExceededException \<Longrightarrow>
         save_repos_to_file st (pre @ Entity repo # rest) = (Some RateLimitExceededException, st1)"
proof -
  from assms show "save_repos_to_file st (pre @ FetchRaises RateLimitExceededException # rest)
           = (Some RateLimitExceededException, st1)"
    by (simp add: save_repos_to_file_append)
next
  assume "fst (loop_body repo st1) = Some RateLimitExceededException"
  then obtain st' where b: "loop_body repo st1 = (Some RateLimitExceededException, st')"
    by (cases "loop_body repo st1") auto
  from loop_body_rate_limit[OF b] b assms
  show "save_repos_to_file st (pre @ Entity repo # rest) = (Some RateLimitExceededException, st1)"
    by (simp add: save_repos_to_file_append)
qed

text \<open>
  Claim C5 expects the rate-limit exception to be recovered by sleeping and resuming, never
  ending the fetch loop. In a run that starts without a file and meets the rate limit on
  its first request, the exception leaves \<^verbatim>\<open>save_repos_to_file\<close>, the handler sleeps the
  15 seconds, and the read of the file that follows raises \<^verbatim>\<open>EmptyDataError\<close>, since
  nothing was stored yet: the invocation ends with it and does not resume.
\<close>

theorem rate_limit_before_first_row_is_fatal:
  "save_repos_to_file fresh [FetchRaises RateLimitExceededException]
     = (Some RateLimitExceededException, fresh) \<and>
   fetch_or_back_off (remote [FetchRaises RateLimitExceededException] 110 100) fresh NotSet
     = (None, fresh\<lparr>slept := [15]\<rparr>) \<and>
   get_repos_with_backoff (Suc n) to_numeric
       (remote [FetchRaises RateLimitExceededException] 110 100) fresh NotSet
     = (Raised EmptyDataError, fresh\<lparr>slept := [15]\<rparr>)"
  by (simp add: sleep_time_def time_sleep_def fetch_or_back_off_def remote_def read_csv_def
      fresh_def)

section \<open>Errors of a single entity\<close>

text \<open>
  Claim C6 expects the error message of a failed entity in the log. The handler asks
  \<^verbatim>\<open>hasattr(e.data, 'message')\<close>, and the data of an API error is a dict: it has the key
  \<^verbatim>\<open>message\<close>, not an attribute of that name. The entity is skipped and the iteration goes
  on with the next entity, but nothing is logged.
\<close>

theorem api_error_is_not_logged:
  "save_repos_to_file fresh [Entity blocked, Entity python_fork] =
     (None, fresh\<lparr>csv := [Header,
        Row [(''fork'', PyBool True), (''id'', PyInt 7), (''language'', PyStr ''Python''),
             (''name'', PyStr ''hello'')]]\<rparr>) \<and>
   errors_log (snd (save_repos_to_file fresh [Entity blocked, Entity python_fork])) = []"
  by (simp add: blocked_body python_fork_body to_csv_def fresh_def)

section \<open>The fetch loop does not return\<close>

lemma fetch_or_back_off_None:
  "fetch_or_back_off g st since = (None, st') \<longleftrightarrow>
     save_repos_to_file st (get_repos g (calls st) since ''public'') = (None, st') \<or>
     (\<exists>st1 reset. save_repos_to_file st (get_repos g (calls st) since ''public'')
          = (Some RateLimitExceededException, st1) \<and>
        core_reset g (calls st) = Inr reset \<and>
        0 \<le> sleep_time reset (gmtime g (calls st)) \<and>
        st' = st1\<lparr>slept := slept st1 @ [sleep_time reset (gmtime g (calls st))]\<rparr>)"
  by (auto simp: fetch_or_back_off_def time_sleep_def
      split: prod.splits option.splits error.splits sum.splits if_splits)

lemma raised_stays:
  "fst (get_repos_with_backoff n to_numeric g st since) = Raised e \<Longrightarrow>
   get_repos_with_backoff (Suc n) to_numeric g st since = get_repos_with_backoff n to_numeric g st since"
proof (induction n arbitrary: st since)
  case 0
  then show ?case by simp
next
  case (Suc n)
  show ?case
  proof (cases rule: get_repos_with_backoff_cases[of "Suc n" to_numeric g st since])
    case (raised e' st')
    from raised(2,3) have "get_repos_with_backoff (Suc n) to_numeric g st since = (Raised e', st')"
      unfolding get_repos_with_backoff_Suc
      by (cases "fetch_or_back_off g st since") (auto split: option.splits)
    with raised(1) show ?thesis by simp
  next
    case (next_call st' df last_id)
    then have n: "get_repos_with_backoff (Suc n) to_numeric g st since =
        get_repos_with_backoff n to_numeric g (st'\<lparr>calls := Suc (calls st')\<rparr>) last_id"
      unfolding get_repos_with_backoff_Suc by simp
    with Suc.prems have
      "fst (get_repos_with_backoff n to_numeric g (st'\<lparr>calls := Suc (calls st')\<rparr>) last_id) = Raised e"
      by simp
    from Suc.IH[OF this] n next_call(4) show ?thesis by simp
  qed
qed

lemma raised_from:
  assumes "fst (get_repos_with_backoff n to_numeric g st since) = Raised e"
  shows "fst (get_repos_with_backoff (n + k) to_numeric g st since) = Raised e"
proof (induction k)
  case 0
  from assms show ?case by simp
next
  case (Suc k)
  from raised_stays[OF Suc] Suc show ?case by simp
qed

lemma never_returned: "fst (get_repos_with_backoff n to_numeric g st since) \<noteq> Returned"
proof (induction n arbitrary: st since)
  case 0
  show ?case by simp
next
  case (Suc n)
  show ?case
    by (cases rule: get_repos_with_backoff_cases[of n to_numeric g st since]) (simp_all add: Suc)
qed

lemma numbered_body:
  "loop_body (numbered i) st =
     (None, st\<lparr>csv := to_csv (csv st) [(''id'', PyInt i), (''name'', PyStr ''repo'')]\<rparr>)"
proof -
  have "getattr (numbered i) ''name'' = Inr (PyStr ''repo'')"
    by (simp add: numbered_def getattr_def)
  moreover have "project (numbered i) PROPERTIES [] =
      Inr [(''id'', PyInt i), (''name'', PyStr ''repo'')]"
    by (simp add: numbered_def PROPERTIES_def hasattr_def getattr_def)
  ultimately show ?thesis
    by (simp add: loop_body_def try_append_def id_is_int_def)
qed

lemma counting_three_cycles:
  "get_repos_with_backoff 3 rejecting counting fresh NotSet =
     (Running, fresh\<lparr>csv := [Header,
        Row [(''id'', PyInt 1), (''name'', PyStr ''repo'')],
        Row [(''id'', PyInt 2), (''name'', PyStr ''repo'')],
        Row [(''id'', PyInt 3), (''name'', PyStr ''repo'')]], slept := [15], calls := 3\<rparr>)"
  by (simp add: numeral_3_eq_3 fetch_or_back_off_def counting_def numbered_body to_csv_def
      sleep_time_def time_sleep_def read_csv_def in_int64_def get_max_id_def series_max_def
      fresh_def)

lemma quiet_remote_runs_on:
  assumes "csv st = [Header, Row [(''id'', PyInt 7)]]"
  shows "fst (get_repos_with_backoff k to_numeric (remote [] reset now) st since) = Running"
  using assms
proof (induction k arbitrary: st since)
  case 0
  show ?case by simp
next
  case (Suc k)
  have f: "fetch_or_back_off (remote [] reset now) st since = (None, st)"
    by (simp add: fetch_or_back_off_def remote_def)
  from Suc.prems have r: "read_csv to_numeric (csv st) = Inr [Some 7]"
    by (simp add: read_csv_def in_int64_def)
  have m: "get_max_id [Some 7] = Inr (Since 7)"
    by (simp add: get_max_id_def series_max_def)
  from f r m have "get_repos_with_backoff (Suc k) to_numeric (remote [] reset now) st since =
    get_repos_with_backoff k to_numeric (remote [] reset now) (st\<lparr>calls := Suc (calls st)\<rparr>) (Since 7)"
    unfolding get_repos_with_backoff_Suc by simp
  moreover from Suc.prems have "csv (st\<lparr>calls := Suc (calls st)\<rparr>) = [Header, Row [(''id'', PyInt 7)]]"
    by simp
  ultimately show ?case using Suc.IH by simp
qed

text \<open>
  Claim C9. \<^verbatim>\<open>get_repos_with_backoff\<close> never returns normally. Every invocation either
  raises (the exception that left the page or the back-off, or the one that the read of
  the file or the cursor computation raised), or it has stored the page for its cursor,
  slept when the page ran into the rate limit, read the cursor from the file, and makes
  the next invocation with that state and that cursor, ending as that one does. So a chain
  of invocations either goes on for ever or ends with an exception, which more fuel does not
  change.
\<close>

theorem fetch_loop_never_returns:
  "fst (get_repos_with_backoff n to_numeric g st since) \<noteq> Returned \<and>
   ((\<exists>e. get_repos_with_backoff (Suc n) to_numeric g st since
           = (Raised e, snd (fetch_or_back_off g st since)) \<and>
         (fst (fetch_or_back_off g st since) = Some e \<or>
          fst (fetch_or_back_off g st since) = None \<and>
          (case read_csv to_numeric (csv (snd (fetch_or_back_off g st since))) of
             Inl e' \<Rightarrow> Inl e' | Inr df \<Rightarrow> get_max_id df) = Inl e)) \<or>
    (\<exists>st' df last_id.
        (save_repos_to_file st (get_repos g (calls st) since ''public'') = (None, st') \<or>
         (\<exists>st1 reset. save_repos_to_file st (get_repos g (calls st) since ''public'')
              = (Some RateLimitExceededException, st1) \<and>
            core_reset g (calls st) = Inr reset \<and>
            0 \<le> sleep_time reset (gmtime g (calls st)) \<and>
            st' = st1\<lparr>slept := slept st1 @ [sleep_time reset (gmtime g (calls st))]\<rparr>)) \<and>
        read_csv to_numeric (csv st') = Inr df \<and> get_max_id df = Inr last_id \<and>
        get_repos_with_backoff (Suc n) to_numeric g st since =
          get_repos_with_backoff n to_numeric g (st'\<lparr>calls := Suc (calls st)\<rparr>) last_id)) \<and>
   ((\<forall>k. fst (get_repos_with_backoff k to_numeric g st since) = Running) \<or>
    (\<exists>N e. \<forall>k \<ge> N. fst (get_repos_with_backoff k to_numeric g st since) = Raised e))"
proof (intro conjI)
  show "fst (get_repos_with_backoff n to_numeric g st since) \<noteq> Returned" by (rule never_returned)
next
  show "(\<exists>e. get_repos_with_backoff (Suc n) to_numeric g st since
           = (Raised e, snd (fetch_or_back_off g st since)) \<and>
         (fst (fetch_or_back_off g st since) = Some e \<or>
          fst (fetch_or_back_off g st since) = None \<and>
          (case read_csv to_numeric (csv (snd (fetch_or_back_off g st since))) of
             Inl e' \<Rightarrow> Inl e' | Inr df \<Rightarrow> get_max_id df) = Inl e)) \<or>
    (\<exists>st' df last_id.
        (save_repos_to_file st (get_repos g (calls st) since ''public'') = (None, st') \<or>
         (\<exists>st1 reset. save_repos_to_file st (get_repos g (calls st) since ''public'')
              = (Some RateLimitExceededException, st1) \<and>
            core_reset g (calls st) = Inr reset \<and>
            0 \<le> sleep_time reset (gmtime g (calls st)) \<and>
            st' = st1\<lparr>slept := slept st1 @ [sleep_time reset (gmtime g (calls st))]\<rparr>)) \<and>
        read_csv to_numeric (csv st') = Inr df \<and> get_max_id df = Inr last_id \<and>
        get_repos_with_backoff (Suc n) to_numeric g st since =
          get_repos_with_backoff n to_numeric g (st'\<lparr>calls := Suc (calls st)\<rparr>) last_id)"
  proof (cases rule: get_repos_with_backoff_cases[of n to_numeric g st since])
    case (raised e st')
    have "fst (fetch_or_back_off g st since) = Some e \<or>
          fst (fetch_or_back_off g st since) = None \<and>
          (case read_csv to_numeric (csv (snd (fetch_or_back_off g st since))) of
             Inl e' \<Rightarrow> Inl e' | Inr df \<Rightarrow> get_max_id df) = Inl e"
    proof (cases "fst (fetch_or_back_off g st since) = Some e")
      case True
      then show ?thesis ..
    next
      case False
      with raised(2) have f: "fetch_or_back_off g st since = (None, st')"
        and rd: "read_csv to_numeric (csv st') = Inl e \<or>
             (\<exists>df. read_csv to_numeric (csv st') = Inr df \<and> get_max_id df = Inl e)"
        by simp_all
      from f have "fst (fetch_or_back_off g st since) = None"
        and "snd (fetch_or_back_off g st since) = st'" by simp_all
      moreover from rd have "(case read_csv to_numeric (csv st') of
             Inl e' \<Rightarrow> Inl e' | Inr df \<Rightarrow> get_max_id df) = Inl e" by auto
      ultimately show ?thesis by simp
    qed
    with raised(1,3) show ?thesis by blast
  next
    case (next_call st' df last_id)
    from next_call(1) have c: "calls st' = calls st"
      using fetch_or_back_off_appends[OF next_call(1)] by simp
    from next_call(1) have "save_repos_to_file st (get_repos g (calls st) since ''public'') = (None, st') \<or>
         (\<exists>st1 reset. save_repos_to_file st (get_repos g (calls st) since ''public'')
              = (Some RateLimitExceededException, st1) \<and>
            core_reset g (calls st) = Inr reset \<and>
            0 \<le> sleep_time reset (gmtime g (calls st)) \<and>
            st' = st1\<lparr>slept := slept st1 @ [sleep_time reset (gmtime g (calls st))]\<rparr>)"
      by (simp only: fetch_or_back_off_None)
    with next_call(2,3,4) c show ?thesis by auto
  qed
next
  show "(\<forall>k. fst (get_repos_with_backoff k to_numeric g st since) = Running) \<or>
    (\<exists>N e. \<forall>k \<ge> N. fst (get_repos_with_backoff k to_numeric g st since) = Raised e)"
  proof (cases "\<forall>k. fst (get_repos_with_backoff k to_numeric g st since) = Running")
    case True
    then show ?thesis ..
  next
    case False
    then obtain N where "fst (get_repos_with_backoff N to_numeric g st since) \<noteq> Running" by blast
    with never_returned[of N to_numeric g st since] obtain e
      where e: "fst (get_repos_with_backoff N to_numeric g st since) = Raised e"
      by (cases "fst (get_repos_with_backoff N to_numeric g st since)") auto
    have "\<forall>k \<ge> N. fst (get_repos_with_backoff k to_numeric g st since) = Raised e"
    proof (intro allI impI)
      fix k assume "N \<le> k"
      then obtain j where "k = N + j" using le_Suc_ex by blast
      with raised_from[OF e, of j]
      show "fst (get_repos_with_backoff k to_numeric g st since) = Raised e" by simp
    qed
    then show ?thesis by blast
  qed
qed

theorem fetch_loop_never_returns_witness:
  "get_repos_with_backoff 3 rejecting counting fresh NotSet =
     (Running, fresh\<lparr>csv := [Header,
        Row [(''id'', PyInt 1), (''name'', PyStr ''repo'')],
        Row [(''id'', PyInt 2), (''name'', PyStr ''repo'')],
        Row [(''id'', PyInt 3), (''name'', PyStr ''repo'')]], slept := [15], calls := 3\<rparr>) \<and>
   fst (get_repos_with_backoff 3 rejecting counting fresh NotSet) \<noteq> Returned \<and>
   save_repos_to_file fresh (get_repos counting (calls fresh) NotSet ''public'') =
     (Some RateLimitExceededException,
      fresh\<lparr>csv := [Header, Row [(''id'', PyInt 1), (''name'', PyStr ''repo'')]]\<rparr>) \<and>
   get_repos_with_backoff (Suc 2) rejecting counting fresh NotSet =
     get_repos_with_backoff 2 rejecting counting
       (fresh\<lparr>csv := [Header, Row [(''id'', PyInt 1), (''name'', PyStr ''repo'')]],
              slept := [15], calls := Suc 0\<rparr>) (Since 1) \<and>
   get_repos_with_backoff 3 rejecting (remote [FetchRaises (GithubException None)] 0 0) fresh NotSet
     = (Raised (GithubException None), fresh) \<and>
   (\<forall>k. fst (get_repos_with_backoff k rejecting (remote [] 0 0)
          (fresh\<lparr>csv := [Header, Row [(''id'', PyInt 7)]]\<rparr>) (Since 7)) = Running)"
proof -
  let ?d1 = "[(''id'', PyInt 1), (''name'', PyStr ''repo'')]"
  note 1 = counting_three_cycles
  have 2: "save_repos_to_file fresh (get_repos counting (calls fresh) NotSet ''public'') =
     (Some RateLimitExceededException, fresh\<lparr>csv := [Header, Row ?d1]\<rparr>)"
    by (simp add: counting_def numbered_body to_csv_def fresh_def)
  have 3: "get_repos_with_backoff 2 rejecting counting
       (fresh\<lparr>csv := [Header, Row ?d1], slept := [15], calls := Suc 0\<rparr>) (Since 1) =
     (Running, fresh\<lparr>csv := [Header,
        Row [(''id'', PyInt 1), (''name'', PyStr ''repo'')],
        Row [(''id'', PyInt 2), (''name'', PyStr ''repo'')],
        Row [(''id'', PyInt 3), (''name'', PyStr ''repo'')]], slept := [15], calls := 3\<rparr>)"
    by (simp add: numeral_2_eq_2 numeral_3_eq_3 fetch_or_back_off_def counting_def numbered_body
        to_csv_def read_csv_def in_int64_def get_max_id_def series_max_def fresh_def)
  have 4: "get_repos_with_backoff 3 rejecting (remote [FetchRaises (GithubException None)] 0 0)
      fresh NotSet = (Raised (GithubException None), fresh)"
    by (simp add: numeral_3_eq_3 fetch_or_back_off_def remote_def)
  have 5: "\<forall>k. fst (get_repos_with_backoff k rejecting (remote [] 0 0)
          (fresh\<lparr>csv := [Header, Row [(''id'', PyInt 7)]]\<rparr>) (Since 7)) = Running"
    by (simp add: quiet_remote_runs_on)
  from fetch_loop_never_returns[of 3 rejecting counting fresh NotSet]
  have 6: "fst (get_repos_with_backoff 3 rejecting counting fresh NotSet) \<noteq> Returned"
    by blast
  from 1 3 have 7: "get_repos_with_backoff (Suc 2) rejecting counting fresh NotSet =
     get_repos_with_backoff 2 rejecting counting
       (fresh\<lparr>csv := [Header, Row ?d1], slept := [15], calls := Suc 0\<rparr>) (Since 1)"
    by (simp only: numeral_3_eq_3 numeral_2_eq_2)
  from 1 2 4 5 6 7 show ?thesis by (intro conjI)
qed

end
